theory Spec2Isabelle
  imports Complex_Main
begin

section \<open>AuraLock: distance estimation and the presence decision of the scanner callback\<close>

text \<open>
  The embedding follows \<^verbatim>\<open>run_auralock.py\<close>. The module's globals are a record that
  every function takes and returns; the commands handed to \<^verbatim>\<open>subprocess.run\<close> are
  returned as a list of argument vectors, in the order in which they are run. Log lines
  (\<^verbatim>\<open>log_message\<close>) only print and are left out.

  A Python float is a finite double, one of the two infinities, or not-a-number. Finite
  doubles are written as the real numbers they denote (the two zeros are one value:
  nothing in this program tells them apart). The float operations of
  \<^verbatim>\<open>rssi_to_distance\<close> follow CPython: each rounds its exact result to a double and
  saturates to an infinity out of range, \<^verbatim>\<open>/\<close> raises \<^verbatim>\<open>ZeroDivisionError\<close> on a zero
  divisor, and \<^verbatim>\<open>**\<close> raises \<^verbatim>\<open>OverflowError\<close> when the C library's \<^verbatim>\<open>pow\<close>
  overflows. The rounding function, the largest double and \<^verbatim>\<open>pow\<close> belong to the
  platform and are parameters of the model. The numbers of \<^verbatim>\<open>config.json\<close> and the
  signal strength are taken as floats, as in the specification's data model (on integers
  of moderate size Python computes the same values).
\<close>

subsection \<open>Configuration and globals\<close>

text \<open>The values read from \<^verbatim>\<open>config.json\<close> at import time.\<close>

record config =
  TARGET_MAC_ADDRESS :: string
  RSSI_AT_1M :: real
  PATH_LOSS_EXPONENT :: real
  DISTANCE_THRESHOLD_CM :: real
  NEARBY_DISTANCE_CM :: real
  TIME_THRESHOLD_SECONDS :: real

text \<open>The two globals that \<^verbatim>\<open>detection_callback\<close> reads and writes.\<close>

record globals =
  distance_exceed_start_time :: "real option"
  screen_locked :: bool

text \<open>The globals as \<^verbatim>\<open>run\<close> leaves them before the scanner starts calling back.\<close>

definition initial_globals :: globals where
  "initial_globals = \<lparr>distance_exceed_start_time = None, screen_locked = False\<rparr>"

datatype py_error = ZeroDivisionError | OverflowError

subsection \<open>Floats\<close>

text \<open>The values of a Python float; a distance is one of them.\<close>

datatype pyfloat = Finite real | PosInf | NegInf | NaN

type_synonym distance = pyfloat

text \<open>Python's \<^verbatim>\<open><=\<close> and \<^verbatim>\<open><\<close> on floats: a comparison with not-a-number is false.\<close>

fun dist_le :: "pyfloat \<Rightarrow> pyfloat \<Rightarrow> bool" where
  "dist_le (Finite x) (Finite y) = (x \<le> y)"
| "dist_le (Finite x) PosInf = True"
| "dist_le PosInf PosInf = True"
| "dist_le NegInf (Finite y) = True"
| "dist_le NegInf PosInf = True"
| "dist_le NegInf NegInf = True"
| "dist_le a b = False"

fun dist_less :: "pyfloat \<Rightarrow> pyfloat \<Rightarrow> bool" where
  "dist_less (Finite x) (Finite y) = (x < y)"
| "dist_less (Finite x) PosInf = True"
| "dist_less NegInf (Finite y) = True"
| "dist_less NegInf PosInf = True"
| "dist_less a b = False"

text \<open>
  What the platform contributes: \<open>rnd\<close> rounds a real to the nearest number with the
  precision of a double (before the range check), \<open>max_float\<close> is the largest finite
  double, and \<open>libm_pow b x\<close> is what C's \<^verbatim>\<open>pow\<close> returns for finite \<open>b\<close> and \<open>x\<close>
  (\<open>PosInf\<close> stands for \<^verbatim>\<open>HUGE_VAL\<close>).
\<close>

record platform =
  rnd :: "real \<Rightarrow> real"
  max_float :: real
  libm_pow :: "real \<Rightarrow> real \<Rightarrow> pyfloat"

text \<open>The double for an exact result: rounded, and an infinity when out of range.\<close>

definition fl :: "platform \<Rightarrow> real \<Rightarrow> pyfloat" where
  "fl p r =
     (let y = rnd p r
      in if max_float p < y then PosInf else if y < - max_float p then NegInf else Finite y)"

fun float_sign :: "pyfloat \<Rightarrow> real" where
  "float_sign (Finite x) = sgn x"
| "float_sign PosInf = 1"
| "float_sign NegInf = - 1"
| "float_sign NaN = 0"

definition signed_inf :: "real \<Rightarrow> pyfloat" where
  "signed_inf s = (if 0 < s then PosInf else if s < 0 then NegInf else NaN)"

text \<open>\<^verbatim>\<open>a - b\<close> on floats; it never raises.\<close>

fun float_sub :: "platform \<Rightarrow> pyfloat \<Rightarrow> pyfloat \<Rightarrow> pyfloat" where
  "float_sub p (Finite x) (Finite y) = fl p (x - y)"
| "float_sub p NaN b = NaN"
| "float_sub p a NaN = NaN"
| "float_sub p PosInf PosInf = NaN"
| "float_sub p NegInf NegInf = NaN"
| "float_sub p PosInf b = PosInf"
| "float_sub p NegInf b = NegInf"
| "float_sub p (Finite x) PosInf = NegInf"
| "float_sub p (Finite x) NegInf = PosInf"

text \<open>\<^verbatim>\<open>a * b\<close> on floats; it never raises, and infinity times zero is not a number.\<close>

fun float_mul :: "platform \<Rightarrow> pyfloat \<Rightarrow> pyfloat \<Rightarrow> pyfloat" where
  "float_mul p (Finite x) (Finite y) = fl p (x * y)"
| "float_mul p NaN b = NaN"
| "float_mul p a NaN = NaN"
| "float_mul p a b = signed_inf (float_sign a * float_sign b)"

text \<open>
  \<^verbatim>\<open>a / b\<close> on floats: a zero divisor raises before anything else is looked at;
  otherwise the quotient follows IEEE 754.
\<close>

fun float_truediv :: "platform \<Rightarrow> pyfloat \<Rightarrow> pyfloat \<Rightarrow> py_error + pyfloat" where
  "float_truediv p a (Finite y) =
     (if y = 0 then Inl ZeroDivisionError
      else (case a of
              Finite x \<Rightarrow> Inr (fl p (x / y))
            | NaN \<Rightarrow> Inr NaN
            | _ \<Rightarrow> Inr (signed_inf (float_sign a * sgn y))))"
| "float_truediv p a NaN = Inr NaN"
| "float_truediv p (Finite x) b = Inr (Finite 0)"
| "float_truediv p a b = Inr NaN"

text \<open>
  \<^verbatim>\<open>10 ** w\<close> for a float \<open>w\<close>, in the order of CPython's \<^verbatim>\<open>float_pow\<close>: a zero
  exponent gives 1.0, not-a-number and the infinities are answered without the C
  library, and for the remaining exponents an infinite result of \<^verbatim>\<open>pow\<close> is an
  \<^verbatim>\<open>OverflowError\<close> (a result that underflows is returned).
\<close>

fun ten_pow :: "platform \<Rightarrow> pyfloat \<Rightarrow> py_error + pyfloat" where
  "ten_pow p (Finite x) =
     (if x = 0 then Inr (Finite 1)
      else (case libm_pow p 10 x of
              PosInf \<Rightarrow> Inl OverflowError
            | NegInf \<Rightarrow> Inl OverflowError
            | r \<Rightarrow> Inr r))"
| "ten_pow p NaN = Inr NaN"
| "ten_pow p PosInf = Inr PosInf"
| "ten_pow p NegInf = Inr (Finite 0)"

subsection \<open>The distance estimate\<close>

text \<open>
  \<^verbatim>\<open>rssi_to_distance(rssi)\<close>: the sentinel 0 gives infinity before anything is
  computed; otherwise \<^verbatim>\<open>10 ** ((RSSI_AT_1M - rssi) / (10 * PATH_LOSS_EXPONENT))\<close> gives
  metres, or raises, and the product with 100 gives centimetres.
\<close>

definition rssi_to_distance :: "platform \<Rightarrow> config \<Rightarrow> real \<Rightarrow> py_error + distance" where
  "rssi_to_distance p cfg rssi =
     (if rssi = 0 then Inr PosInf
      else
        (case float_truediv p
                (float_sub p (Finite (RSSI_AT_1M cfg)) (Finite rssi))
                (float_mul p (Finite 10) (Finite (PATH_LOSS_EXPONENT cfg))) of
           Inl e \<Rightarrow> Inl e
         | Inr exponent \<Rightarrow>
             (case ten_pow p exponent of
                Inl e \<Rightarrow> Inl e
              | Inr distance_meters \<Rightarrow>
                  (let distance_centimeters = float_mul p distance_meters (Finite 100)
                   in Inr distance_centimeters))))"

text \<open>
  What IEEE 754 arithmetic in round-to-nearest guarantees of \<open>rnd\<close> and \<open>max_float\<close>, as
  far as the theorems below need it: rounding is monotone, and the integers up to
  \<open>2 ^ 53\<close> in magnitude are doubles, so they are rounded to themselves and lie in range.
\<close>

definition ieee_rounding :: "platform \<Rightarrow> bool" where
  "ieee_rounding p =
     ((\<forall>x y. x \<le> y \<longrightarrow> rnd p x \<le> rnd p y)
      \<and> (\<forall>n::int. \<bar>n\<bar> \<le> 2 ^ 53 \<longrightarrow> rnd p (real_of_int n) = real_of_int n)
      \<and> 2 ^ 53 \<le> max_float p)"

text \<open>
  \<^verbatim>\<open>pow(10, x)\<close> is a non-negative double or \<^verbatim>\<open>HUGE_VAL\<close>, and \<^verbatim>\<open>pow(10, 0)\<close> is 1
  (C99, Annex F).
\<close>

definition libm_pow_sound :: "platform \<Rightarrow> bool" where
  "libm_pow_sound p =
     (libm_pow p 10 0 = Finite 1
      \<and> (\<forall>x. libm_pow p 10 x = PosInf \<or> (\<exists>y. 0 \<le> y \<and> libm_pow p 10 x = Finite y)))"

text \<open>\<^verbatim>\<open>pow(10, x)\<close> does not decrease when \<open>x\<close> grows; no standard promises this.\<close>

definition libm_pow_mono :: "platform \<Rightarrow> bool" where
  "libm_pow_mono p = (\<forall>x y. x \<le> y \<longrightarrow> dist_le (libm_pow p 10 x) (libm_pow p 10 y))"

text \<open>
  A platform on which the examples are evaluated: nothing is lost to rounding, the range
  is that of binary64, and \<^verbatim>\<open>pow\<close> is exact up to the range. The examples below
  take inputs on which binary64 arithmetic gives the same results.
\<close>

definition binary64_max :: real where
  "binary64_max = 2 ^ 1024 - 2 ^ 971"

definition exact_in_range :: platform where
  "exact_in_range =
     \<lparr>rnd = (\<lambda>x. x), max_float = binary64_max,
      libm_pow = (\<lambda>b x. if binary64_max < b powr x then PosInf else Finite (b powr x))\<rparr>"

subsection \<open>The session commands\<close>

type_synonym command = "string list"

text \<open>The two \<^verbatim>\<open>subprocess.run\<close> calls of \<^verbatim>\<open>lock_screen\<close>: the lock intent.\<close>

definition lock_commands :: "command list" where
  "lock_commands =
     [[''cinnamon-screensaver-command'', ''--lock''],
      [''notify-send'', ''AuraLock locked the screen.'']]"

text \<open>The two \<^verbatim>\<open>subprocess.run\<close> calls of \<^verbatim>\<open>unlock_screen\<close>: the unlock intent.\<close>

definition unlock_commands :: "command list" where
  "unlock_commands =
     [[''cinnamon-screensaver-command'', ''--deactivate''],
      [''notify-send'', ''AuraLock unlocked the screen.'']]"

text \<open>\<^verbatim>\<open>lock_screen()\<close> runs its commands whatever \<^verbatim>\<open>screen_locked\<close> is.\<close>

definition lock_screen :: "globals \<Rightarrow> globals \<times> command list" where
  "lock_screen g = (g\<lparr>screen_locked := True\<rparr>, lock_commands)"

text \<open>\<^verbatim>\<open>unlock_screen()\<close> does something only \<^verbatim>\<open>if screen_locked\<close>.\<close>

definition unlock_screen :: "globals \<Rightarrow> globals \<times> command list" where
  "unlock_screen g =
     (if screen_locked g then (g\<lparr>screen_locked := False\<rparr>, unlock_commands)
      else (g, []))"

text \<open>Whether a run of commands asks the screensaver to lock.\<close>

definition emits_lock :: "command list \<Rightarrow> bool" where
  "emits_lock cmds = ([''cinnamon-screensaver-command'', ''--lock''] \<in> set cmds)"

text \<open>Whether a run of commands asks the screensaver to unlock.\<close>

definition emits_unlock :: "command list \<Rightarrow> bool" where
  "emits_unlock cmds = ([''cinnamon-screensaver-command'', ''--deactivate''] \<in> set cmds)"

subsection \<open>The callback\<close>

text \<open>
  The \<^verbatim>\<open>if\<close>/\<^verbatim>\<open>elif\<close>/\<^verbatim>\<open>else\<close> chain of \<^verbatim>\<open>detection_callback\<close> (lines 80 to 97),
  on the distance already computed; \<open>now\<close> is what \<^verbatim>\<open>time.time()\<close> returns (each
  path through the chain reads the clock at most once).
\<close>

definition on_distance ::
  "config \<Rightarrow> distance \<Rightarrow> real \<Rightarrow> globals \<Rightarrow> globals \<times> command list" where
  "on_distance cfg distance now g =
     (if dist_le distance (Finite (NEARBY_DISTANCE_CM cfg)) then
        (case unlock_screen g of
           (g', cmds) \<Rightarrow> (g'\<lparr>distance_exceed_start_time := None\<rparr>, cmds))
      else if dist_less (Finite (DISTANCE_THRESHOLD_CM cfg)) distance then
        (case distance_exceed_start_time g of
           None \<Rightarrow> (g\<lparr>distance_exceed_start_time := Some now\<rparr>, [])
         | Some start \<Rightarrow>
             if now - start > TIME_THRESHOLD_SECONDS cfg then
               (case lock_screen g of
                  (g', cmds) \<Rightarrow> (g'\<lparr>distance_exceed_start_time := None\<rparr>, cmds))
             else (g, []))
      else (g\<lparr>distance_exceed_start_time := None\<rparr>, []))"

text \<open>
  \<^verbatim>\<open>detection_callback(device, advertisement_data)\<close>: advertisements of other devices
  change nothing; an exception of \<^verbatim>\<open>rssi_to_distance\<close> leaves the callback before
  any global is written.
\<close>

definition detection_callback ::
  "platform \<Rightarrow> config \<Rightarrow> string \<Rightarrow> real \<Rightarrow> real \<Rightarrow> globals
     \<Rightarrow> py_error + globals \<times> command list" where
  "detection_callback p cfg address rssi now g =
     (if address = TARGET_MAC_ADDRESS cfg then
        (case rssi_to_distance p cfg rssi of
           Inl e \<Rightarrow> Inl e
         | Inr distance \<Rightarrow> Inr (on_distance cfg distance now g))
      else Inr (g, []))"

text \<open>
  The scanner delivers samples one after the other; \<open>process\<close> feeds a list of
  (distance, clock reading) pairs through the chain and collects the commands of each.
\<close>

fun process ::
  "config \<Rightarrow> (distance \<times> real) list \<Rightarrow> globals \<Rightarrow> globals \<times> command list list" where
  "process cfg [] g = (g, [])"
| "process cfg (s # rest) g =
     (case on_distance cfg (fst s) (snd s) g of
        (g', cmds) \<Rightarrow>
          (case process cfg rest g' of (g'', out) \<Rightarrow> (g'', cmds # out)))"

text \<open>The thresholds of the specification's scenarios: 100 cm, 300 cm, 5 s.\<close>

definition scenario_config :: config where
  "scenario_config =
     \<lparr>TARGET_MAC_ADDRESS = ''AA:BB:CC:DD:EE:FF'', RSSI_AT_1M = - 60, PATH_LOSS_EXPONENT = 2,
      DISTANCE_THRESHOLD_CM = 300, NEARBY_DISTANCE_CM = 100, TIME_THRESHOLD_SECONDS = 5\<rparr>"

section \<open>Auxiliary facts\<close>

lemma emits_lock_simps:
  "emits_lock lock_commands" "\<not> emits_lock unlock_commands" "\<not> emits_lock []"
  by (simp_all add: emits_lock_def lock_commands_def unlock_commands_def)

lemma unlock_commands_nonempty: "unlock_commands \<noteq> []"
  by (simp add: unlock_commands_def)

lemma emits_unlock_simps:
  "emits_unlock unlock_commands" "\<not> emits_unlock lock_commands" "\<not> emits_unlock []"
  by (simp_all add: emits_unlock_def lock_commands_def unlock_commands_def)

text \<open>
  For the target device the callback is the chain applied to the estimated distance,
  whenever the estimate does not raise.
\<close>

lemma detection_callback_target:
  assumes "rssi_to_distance p cfg rssi = Inr d"
  shows "detection_callback p cfg (TARGET_MAC_ADDRESS cfg) rssi now g
           = Inr (on_distance cfg d now g)"
  using assms by (simp add: detection_callback_def)

lemma detection_callback_other_device:
  "address \<noteq> TARGET_MAC_ADDRESS cfg
   \<Longrightarrow> detection_callback p cfg address rssi now g = Inr (g, [])"
  by (simp add: detection_callback_def)

text \<open>An estimate that raises leaves the callback with the globals untouched.\<close>

lemma detection_callback_raises:
  assumes "rssi_to_distance p cfg rssi = Inl e"
  shows "detection_callback p cfg (TARGET_MAC_ADDRESS cfg) rssi now g = Inl e"
  using assms by (simp add: detection_callback_def)

subsection \<open>The example platform\<close>

lemma exact_in_range_simps:
  "rnd exact_in_range x = x"
  "max_float exact_in_range = binary64_max"
  "libm_pow exact_in_range b x = (if binary64_max < b powr x then PosInf else Finite (b powr x))"
  by (simp_all add: exact_in_range_def)

lemma ieee_rounding_exact: "ieee_rounding exact_in_range"
  by (simp add: ieee_rounding_def exact_in_range_simps binary64_max_def)

lemma libm_pow_sound_exact: "libm_pow_sound exact_in_range"
  by (simp add: libm_pow_sound_def exact_in_range_simps binary64_max_def)

lemma libm_pow_mono_exact: "libm_pow_mono exact_in_range"
  unfolding libm_pow_mono_def
proof (intro allI impI)
  fix x y :: real
  assume "x \<le> y"
  then have le: "(10::real) powr x \<le> 10 powr y" by simp
  show "dist_le (libm_pow exact_in_range 10 x) (libm_pow exact_in_range 10 y)"
  proof (cases "binary64_max < 10 powr y")
    case True
    then show ?thesis by (simp add: exact_in_range_simps)
  next
    case False
    with le have "\<not> binary64_max < 10 powr x" by linarith
    with False le show ?thesis by (simp add: exact_in_range_simps del: powr_le_cancel_iff)
  qed
qed

subsection \<open>Rounding\<close>

lemma rnd_zero: "ieee_rounding p \<Longrightarrow> rnd p 0 = 0"
proof -
  assume "ieee_rounding p"
  then have "\<bar>0::int\<bar> \<le> 2 ^ 53 \<longrightarrow> rnd p (real_of_int 0) = real_of_int 0"
    unfolding ieee_rounding_def by blast
  then show ?thesis by simp
qed

lemma max_float_pos: "ieee_rounding p \<Longrightarrow> 0 < max_float p"
proof -
  assume "ieee_rounding p"
  then have "(2::real) ^ 53 \<le> max_float p" unfolding ieee_rounding_def by blast
  moreover have "(0::real) < 2 ^ 53" by simp
  ultimately show ?thesis by linarith
qed

lemma fl_disj:
  "fl p r = PosInf \<and> max_float p < rnd p r
   \<or> fl p r = NegInf \<and> rnd p r < - max_float p
   \<or> fl p r = Finite (rnd p r) \<and> - max_float p \<le> rnd p r \<and> rnd p r \<le> max_float p"
  by (simp add: fl_def Let_def)

lemma fl_mono:
  assumes "ieee_rounding p" and "x \<le> y"
  shows "dist_le (fl p x) (fl p y)"
proof -
  from assms have le: "rnd p x \<le> rnd p y" unfolding ieee_rounding_def by blast
  from max_float_pos [OF assms(1)] le fl_disj [of p x] fl_disj [of p y] show ?thesis
    by auto
qed

lemma fl_nonneg:
  assumes "ieee_rounding p" and "0 \<le> x"
  shows "fl p x = PosInf \<or> (\<exists>y. 0 \<le> y \<and> fl p x = Finite y)"
proof -
  from assms have "rnd p 0 \<le> rnd p x" unfolding ieee_rounding_def by blast
  with rnd_zero [OF assms(1)] have "0 \<le> rnd p x" by simp
  with max_float_pos [OF assms(1)] fl_disj [of p x] show ?thesis
    by auto
qed

lemma fl_int:
  assumes "ieee_rounding p" and "\<bar>n\<bar> \<le> 2 ^ 53"
  shows "fl p (real_of_int n) = Finite (real_of_int n)"
proof -
  from assms have r: "rnd p (real_of_int n) = real_of_int n"
    unfolding ieee_rounding_def by blast
  from assms(1) have m: "(2::real) ^ 53 \<le> max_float p" unfolding ieee_rounding_def by blast
  from assms(2) have "\<bar>real_of_int n\<bar> \<le> real_of_int (2 ^ 53)"
    by (metis of_int_abs of_int_le_iff)
  then have "\<bar>real_of_int n\<bar> \<le> 2 ^ 53" by simp
  with m have "- max_float p \<le> real_of_int n \<and> real_of_int n \<le> max_float p" by linarith
  with r show ?thesis by (simp add: fl_def Let_def)
qed

lemma ten_pow_result:
  assumes "libm_pow_sound p" and "ten_pow p w = Inr m"
  shows "m = NaN \<and> w = NaN \<or> m = PosInf \<and> w = PosInf \<or> (\<exists>y. 0 \<le> y \<and> m = Finite y)"
proof (cases w)
  case (Finite x)
  from assms(1) have "libm_pow p 10 x = PosInf \<or> (\<exists>y. 0 \<le> y \<and> libm_pow p 10 x = Finite y)"
    unfolding libm_pow_sound_def by blast
  with assms(2) Finite show ?thesis by (auto split: if_splits)
qed (use assms(2) in auto)

lemma ten_pow_mono:
  assumes "libm_pow_sound p" and "libm_pow_mono p"
    and "dist_le a b" and "ten_pow p a = Inr m1" and "ten_pow p b = Inr m2"
  shows "dist_le m1 m2"
proof -
  have mono: "dist_le (libm_pow p 10 x) (libm_pow p 10 y)" if "x \<le> y" for x y
    using assms(2) that unfolding libm_pow_mono_def by blast
  have one: "libm_pow p 10 0 = Finite 1"
    using assms(1) unfolding libm_pow_sound_def by blast
  have snd: "libm_pow p 10 x = PosInf \<or> (\<exists>y. 0 \<le> y \<and> libm_pow p 10 x = Finite y)" for x
    using assms(1) unfolding libm_pow_sound_def by blast
  show ?thesis
  proof (cases a)
    case a: (Finite x)
    show ?thesis
    proof (cases b)
      case b: (Finite y)
      with a assms(3) have xy: "x \<le> y" by simp
      from mono [OF xy] have m: "dist_le (libm_pow p 10 x) (libm_pow p 10 y)" .
      show ?thesis
      proof (cases "x = 0")
        case True
        with xy mono [of 0 y] one have "dist_le (Finite 1) (libm_pow p 10 y)" by simp
        with True a b assms(4,5) snd [of y] show ?thesis by (auto split: if_splits)
      next
        case False
        show ?thesis
        proof (cases "y = 0")
          case True
          with xy mono [of x 0] one have "dist_le (libm_pow p 10 x) (Finite 1)" by simp
          with True False a b assms(4,5) snd [of x] show ?thesis by (auto split: if_splits)
        next
          case y: False
          with False m a b assms(4,5) snd [of x] snd [of y] show ?thesis
            by (auto split: if_splits)
        qed
      qed
    next
      case PosInf
      with a assms(4,5) snd [of x] show ?thesis by (auto split: if_splits)
    qed (use a assms(3) in auto)
  next
    case PosInf
    with assms(3,4,5) show ?thesis by (cases b) auto
  next
    case a: NegInf
    show ?thesis
    proof (cases b)
      case (Finite y)
      with a assms(4,5) snd [of y] show ?thesis by (auto split: if_splits)
    qed (use a assms(3,4,5) in auto)
  next
    case NaN
    with assms(3) show ?thesis by simp
  qed
qed


lemma fl_not_NaN: "fl p r \<noteq> NaN"
  using fl_disj [of p r] by auto

lemma fl_bounds: "dist_le NegInf (fl p r)" "dist_le (fl p r) PosInf"
  using fl_disj [of p r] by auto

lemma mul_100_NaN: "float_mul p m (Finite 100) = NaN \<longleftrightarrow> m = NaN"
  by (cases m) (simp_all add: fl_not_NaN signed_inf_def)

lemma mul_100_mono:
  assumes "ieee_rounding p" and "dist_le m2 m1"
  shows "dist_le (float_mul p m2 (Finite 100)) (float_mul p m1 (Finite 100))"
proof (cases m2)
  case m2: (Finite y2)
  show ?thesis
  proof (cases m1)
    case (Finite y1)
    with m2 assms(2) have "y2 * 100 \<le> y1 * 100" by simp
    from fl_mono [OF assms(1) this] m2 Finite show ?thesis by simp
  next
    case PosInf
    with m2 show ?thesis by (simp add: signed_inf_def fl_bounds)
  qed (use m2 assms(2) in auto)
next
  case m2: NegInf
  with assms(2) show ?thesis
    by (cases m1) (auto simp add: signed_inf_def fl_bounds)
next
  case PosInf
  with assms(2) show ?thesis by (cases m1) (simp_all add: signed_inf_def)
next
  case NaN
  with assms(2) show ?thesis by simp
qed

lemma truediv_mono:
  assumes "ieee_rounding p" and "dist_le a2 a1"
    and "b = PosInf \<or> (\<exists>y. 0 \<le> y \<and> b = Finite y)"
    and "float_truediv p a1 b = Inr q1" and "float_truediv p a2 b = Inr q2"
    and "q1 \<noteq> NaN" and "q2 \<noteq> NaN"
  shows "dist_le q2 q1"
  using assms(3)
proof
  assume b: "b = PosInf"
  with assms(4,5,6,7) show ?thesis by (cases a1; cases a2) auto
next
  assume "\<exists>y. 0 \<le> y \<and> b = Finite y"
  then obtain y where y: "0 \<le> y" "b = Finite y" by blast
  with assms(4) have y0: "0 < y" by (auto split: if_splits)
  show ?thesis
  proof (cases a2)
    case a2: (Finite x2)
    show ?thesis
    proof (cases a1)
      case (Finite x1)
      with a2 assms(2) y0 have "x2 / y \<le> x1 / y" by (simp add: divide_right_mono)
      from fl_mono [OF assms(1) this] a2 Finite y y0 assms(4,5) show ?thesis by auto
    next
      case PosInf
      with a2 y y0 assms(4,5) show ?thesis
        by (auto simp add: signed_inf_def fl_bounds)
    qed (use a2 assms(2) in auto)
  next
    case a2: NegInf
    with y y0 assms(4,5,2,6) show ?thesis
      by (cases a1) (auto simp add: signed_inf_def fl_bounds)
  next
    case PosInf
    with y y0 assms(4,5,2) show ?thesis
      by (cases a1) (auto simp add: signed_inf_def)
  next
    case NaN
    with assms(2) show ?thesis by simp
  qed
qed

lemma rssi_to_distance_Inr:
  assumes "rssi \<noteq> 0" and "rssi_to_distance p cfg rssi = Inr d"
  obtains q m where
    "float_truediv p (fl p (RSSI_AT_1M cfg - rssi)) (fl p (10 * PATH_LOSS_EXPONENT cfg)) = Inr q"
    "ten_pow p q = Inr m" "d = float_mul p m (Finite 100)"
  using assms by (auto simp add: rssi_to_distance_def Let_def split: sum.splits)

lemma truediv_no_zero_division:
  assumes "b \<noteq> Finite 0"
  shows "float_truediv p a b \<noteq> Inl ZeroDivisionError"
  using assms by (cases b; cases a) auto

lemma ten_pow_no_zero_division: "ten_pow p w \<noteq> Inl ZeroDivisionError"
  by (cases w) (auto split: pyfloat.splits)

lemma fl_in_range:
  assumes "\<bar>rnd p r\<bar> \<le> max_float p"
  shows "fl p r = Finite (rnd p r)"
  using assms by (auto simp add: fl_def Let_def)

subsection \<open>The callback's chain\<close>

text \<open>A sample at or below either threshold leaves no timer behind.\<close>

lemma on_distance_clears:
  "dist_le d (Finite (DISTANCE_THRESHOLD_CM cfg)) \<or> dist_le d (Finite (NEARBY_DISTANCE_CM cfg))
   \<Longrightarrow> distance_exceed_start_time (fst (on_distance cfg d now g)) = None"
  by (cases d) (auto simp add: on_distance_def unlock_screen_def)

text \<open>
  If the timer is set after a sample, the sample was beyond the away threshold, and the
  timer either was already set to the same instant or has just been started at the
  sample's clock reading.
\<close>

lemma on_distance_timer_running:
  assumes "distance_exceed_start_time (fst (on_distance cfg d now g)) = Some t"
  shows "dist_less (Finite (DISTANCE_THRESHOLD_CM cfg)) d
         \<and> (distance_exceed_start_time g = Some t
            \<or> distance_exceed_start_time g = None \<and> now = t)"
  using assms
  by (cases d)
     (auto simp add: on_distance_def unlock_screen_def lock_screen_def
           split: if_splits option.splits)

text \<open>
  The same over a whole run of samples, from any starting globals: a timer that is set
  at the end is the one the run started with, every sample having been away, or it was
  started by a sample of the run and every sample from that one on has been away.
\<close>

lemma process_timer_running:
  assumes "distance_exceed_start_time (fst (process cfg samples g)) = Some t"
  shows "(distance_exceed_start_time g = Some t
            \<and> (\<forall>s \<in> set samples. dist_less (Finite (DISTANCE_THRESHOLD_CM cfg)) (fst s)))
         \<or> (\<exists>earlier run. samples = earlier @ run \<and> run \<noteq> [] \<and> snd (hd run) = t
            \<and> (\<forall>s \<in> set run. dist_less (Finite (DISTANCE_THRESHOLD_CM cfg)) (fst s)))"
  using assms
proof (induction samples arbitrary: g)
  case Nil
  then show ?case by simp
next
  case (Cons s rest)
  let ?away = "\<lambda>s. dist_less (Finite (DISTANCE_THRESHOLD_CM cfg)) (fst s)"
  define g' where "g' = fst (on_distance cfg (fst s) (snd s) g)"
  have final: "fst (process cfg (s # rest) g) = fst (process cfg rest g')"
    by (simp add: g'_def split: prod.splits)
  with Cons.prems have "distance_exceed_start_time (fst (process cfg rest g')) = Some t"
    by simp
  from Cons.IH [OF this] consider
      (kept) "distance_exceed_start_time g' = Some t" "\<forall>x \<in> set rest. ?away x"
    | (later) earlier run where "rest = earlier @ run" "run \<noteq> []" "snd (hd run) = t"
        "\<forall>x \<in> set run. ?away x"
    by blast
  then show ?case
  proof cases
    case kept
    from kept(1) have step: "?away s"
      "distance_exceed_start_time g = Some t \<or> distance_exceed_start_time g = None \<and> snd s = t"
      using on_distance_timer_running [of cfg "fst s" "snd s" g t] by (simp_all add: g'_def)
    from step(2) show ?thesis
    proof
      assume "distance_exceed_start_time g = Some t"
      with step(1) kept(2) show ?thesis by simp
    next
      assume "distance_exceed_start_time g = None \<and> snd s = t"
      with step(1) kept(2)
      have "s # rest = [] @ (s # rest) \<and> s # rest \<noteq> [] \<and> snd (hd (s # rest)) = t
            \<and> (\<forall>x \<in> set (s # rest). ?away x)"
        by simp
      then show ?thesis by blast
    qed
  next
    case later
    then have "s # rest = (s # earlier) @ run \<and> run \<noteq> [] \<and> snd (hd run) = t
            \<and> (\<forall>x \<in> set run. ?away x)"
      by simp
    then show ?thesis by blast
  qed
qed

section \<open>The distance estimator\<close>

text \<open>
  C7. Whatever the calibration values are, the sentinel signal strength 0 is mapped to
  the infinite distance (the test comes before the division, so this also holds for a
  path-loss exponent of zero), on every platform.
\<close>

theorem rssi_to_distance_zero: "rssi_to_distance p cfg 0 = Inr PosInf"
  by (simp add: rssi_to_distance_def)

text \<open>
  C8, as stated, fails in two ways. At a path-loss exponent of zero the signal strength
  -60, which is not the sentinel, returns no distance: the division raises
  \<^verbatim>\<open>ZeroDivisionError\<close>. With the exponent 2 and the reference strength -60, the
  signal strength -10000 returns no distance either: \<^verbatim>\<open>10 ** 497.0\<close> raises
  \<^verbatim>\<open>OverflowError\<close>.
\<close>

theorem rssi_to_distance_zero_exponent_raises:
  "(- 60 :: real) \<noteq> 0
   \<and> PATH_LOSS_EXPONENT (scenario_config\<lparr>PATH_LOSS_EXPONENT := 0\<rparr>) = 0
   \<and> rssi_to_distance exact_in_range (scenario_config\<lparr>PATH_LOSS_EXPONENT := 0\<rparr>) (- 60)
       = Inl ZeroDivisionError
   \<and> (- 10000 :: real) \<noteq> 0
   \<and> PATH_LOSS_EXPONENT scenario_config = 2
   \<and> rssi_to_distance exact_in_range scenario_config (- 10000) = Inl OverflowError"
  by (simp add: rssi_to_distance_def scenario_config_def fl_def exact_in_range_simps
        binary64_max_def)

text \<open>
  C8 (amended). Take a signal strength other than the sentinel 0 and calibration values
  whose product \<^verbatim>\<open>10 * PATH_LOSS_EXPONENT\<close> is not zero as a float, on a platform with
  IEEE rounding and a sound \<^verbatim>\<open>pow\<close>. Then the estimator never raises
  \<^verbatim>\<open>ZeroDivisionError\<close>; a value it returns is not negative (it may be infinite) or
  is not-a-number; when the difference, the product and the quotient stay in the range of
  doubles, the estimator computes \<open>10 ^ ((RSSI_AT_1M - rssi) / (10 * PATH_LOSS_EXPONENT)) * 100\<close>
  operation by operation, each result rounded: with \<open>q\<close> the rounded quotient, it raises
  \<^verbatim>\<open>OverflowError\<close> when \<^verbatim>\<open>pow(10, q)\<close> overflows and otherwise returns the rounded
  product of \<^verbatim>\<open>pow(10, q)\<close> and 100; and with a reference strength of -60 and an
  exponent of 2, the signal strength -60 gives exactly 100 centimetres.
\<close>

theorem rssi_to_distance_formula:
  assumes "rssi \<noteq> 0"
    and "float_mul p (Finite 10) (Finite (PATH_LOSS_EXPONENT cfg)) \<noteq> Finite 0"
    and "ieee_rounding p" and "libm_pow_sound p"
  shows "rssi_to_distance p cfg rssi \<noteq> Inl ZeroDivisionError
     \<and> (\<forall>d. rssi_to_distance p cfg rssi = Inr d \<longrightarrow> d = NaN \<or> dist_le (Finite 0) d)
     \<and> (\<forall>a b q. a = rnd p (RSSI_AT_1M cfg - rssi) \<and> b = rnd p (10 * PATH_LOSS_EXPONENT cfg)
            \<and> q = rnd p (a / b)
            \<and> \<bar>a\<bar> \<le> max_float p \<and> \<bar>b\<bar> \<le> max_float p \<and> \<bar>q\<bar> \<le> max_float p
          \<longrightarrow> libm_pow p 10 q = PosInf \<and> rssi_to_distance p cfg rssi = Inl OverflowError
              \<or> (\<exists>y. 0 \<le> y \<and> libm_pow p 10 q = Finite y
                    \<and> rssi_to_distance p cfg rssi = Inr (fl p (y * 100))))
     \<and> (RSSI_AT_1M cfg = - 60 \<and> PATH_LOSS_EXPONENT cfg = 2 \<and> rssi = - 60
          \<longrightarrow> rssi_to_distance p cfg rssi = Inr (Finite 100))"
proof (intro conjI allI impI)
  from assms(2) have b0: "fl p (10 * PATH_LOSS_EXPONENT cfg) \<noteq> Finite 0" by simp
  show "rssi_to_distance p cfg rssi \<noteq> Inl ZeroDivisionError"
    using assms(1) truediv_no_zero_division [OF b0, of p "fl p (RSSI_AT_1M cfg - rssi)"]
      ten_pow_no_zero_division [of p]
    by (auto simp add: rssi_to_distance_def Let_def split: sum.splits)
next
  fix d
  assume "rssi_to_distance p cfg rssi = Inr d"
  from rssi_to_distance_Inr [OF assms(1) this] obtain q m where
    m: "ten_pow p q = Inr m" "d = float_mul p m (Finite 100)" by blast
  from ten_pow_result [OF assms(4) m(1)] consider "m = NaN" | "m = PosInf"
    | y where "0 \<le> y" "m = Finite y"
    by blast
  then show "d = NaN \<or> dist_le (Finite 0) d"
  proof cases
    case 3
    then have "0 \<le> y * 100" by simp
    from fl_nonneg [OF assms(3) this] 3 m(2) show ?thesis by auto
  qed (use m(2) in \<open>simp_all add: signed_inf_def\<close>)
next
  fix a b q
  assume h: "a = rnd p (RSSI_AT_1M cfg - rssi) \<and> b = rnd p (10 * PATH_LOSS_EXPONENT cfg)
            \<and> q = rnd p (a / b)
            \<and> \<bar>a\<bar> \<le> max_float p \<and> \<bar>b\<bar> \<le> max_float p \<and> \<bar>q\<bar> \<le> max_float p"
  from h have "\<bar>rnd p (RSSI_AT_1M cfg - rssi)\<bar> \<le> max_float p" by blast
  from fl_in_range [OF this] h have fa: "fl p (RSSI_AT_1M cfg - rssi) = Finite a" by simp
  from h have "\<bar>rnd p (10 * PATH_LOSS_EXPONENT cfg)\<bar> \<le> max_float p" by blast
  from fl_in_range [OF this] h have fb: "fl p (10 * PATH_LOSS_EXPONENT cfg) = Finite b" by simp
  from h have "\<bar>rnd p (a / b)\<bar> \<le> max_float p" by blast
  from fl_in_range [OF this] h have fq: "fl p (a / b) = Finite q" by simp
  from assms(2) fb have b0: "b \<noteq> 0" by simp
  from assms(4) have one: "libm_pow p 10 0 = Finite 1"
    and snd: "libm_pow p 10 q = PosInf \<or> (\<exists>y. 0 \<le> y \<and> libm_pow p 10 q = Finite y)"
    unfolding libm_pow_sound_def by blast+
  have r: "rssi_to_distance p cfg rssi =
             (case ten_pow p (Finite q) of Inl e \<Rightarrow> Inl e
              | Inr m \<Rightarrow> Inr (float_mul p m (Finite 100)))"
    using assms(1) fa fb fq b0
    by (simp add: rssi_to_distance_def Let_def split: sum.splits)
  show "libm_pow p 10 q = PosInf \<and> rssi_to_distance p cfg rssi = Inl OverflowError
              \<or> (\<exists>y. 0 \<le> y \<and> libm_pow p 10 q = Finite y
                    \<and> rssi_to_distance p cfg rssi = Inr (fl p (y * 100)))"
  proof (cases "q = 0")
    case True
    with r one show ?thesis by simp
  next
    case False
    with r snd show ?thesis by auto
  qed
next
  assume h: "RSSI_AT_1M cfg = - 60 \<and> PATH_LOSS_EXPONENT cfg = 2 \<and> rssi = - 60"
  have z: "fl p 0 = Finite 0" using fl_int [OF assms(3), of 0] by simp
  have t: "fl p 20 = Finite 20" using fl_int [OF assms(3), of 20] by simp
  have c: "fl p 100 = Finite 100" using fl_int [OF assms(3), of 100] by simp
  from h z t c show "rssi_to_distance p cfg rssi = Inr (Finite 100)"
    by (simp add: rssi_to_distance_def)
qed

theorem rssi_to_distance_formula_witness:
  "(- 80 :: real) \<noteq> 0
   \<and> float_mul exact_in_range (Finite 10) (Finite (PATH_LOSS_EXPONENT scenario_config))
       \<noteq> Finite 0
   \<and> ieee_rounding exact_in_range \<and> libm_pow_sound exact_in_range
   \<and> RSSI_AT_1M scenario_config = - 60 \<and> PATH_LOSS_EXPONENT scenario_config = 2
   \<and> rssi_to_distance exact_in_range scenario_config (- 60) = Inr (Finite 100)
   \<and> libm_pow exact_in_range 10 1 = Finite 10
   \<and> rssi_to_distance exact_in_range scenario_config (- 80) = Inr (Finite 1000)"
proof -
  let ?p = exact_in_range and ?cfg = scenario_config
  have a: "(- 60 :: real) \<noteq> 0" "(- 80 :: real) \<noteq> 0" by simp_all
  have b: "float_mul ?p (Finite 10) (Finite (PATH_LOSS_EXPONENT ?cfg)) \<noteq> Finite 0"
    by (simp add: scenario_config_def fl_def exact_in_range_simps binary64_max_def)
  have c: "RSSI_AT_1M ?cfg = - 60 \<and> PATH_LOSS_EXPONENT ?cfg = 2"
    by (simp add: scenario_config_def)
  have range:
    "rnd ?p (RSSI_AT_1M ?cfg - (- 80)) = 20" "rnd ?p (10 * PATH_LOSS_EXPONENT ?cfg) = 20"
    "rnd ?p (20 / 20) = 1" "\<bar>20\<bar> \<le> max_float ?p" "\<bar>1\<bar> \<le> max_float ?p"
    by (simp_all add: scenario_config_def exact_in_range_simps binary64_max_def)
  have pow: "libm_pow ?p 10 1 = Finite 10"
    by (simp add: exact_in_range_simps binary64_max_def)
  have prod: "fl ?p (10 * 100) = Finite 1000"
    by (simp add: fl_def exact_in_range_simps binary64_max_def)
  from rssi_to_distance_formula [OF a(1) b ieee_rounding_exact libm_pow_sound_exact] c
  have at_60: "rssi_to_distance ?p ?cfg (- 60) = Inr (Finite 100)" by blast
  from rssi_to_distance_formula [OF a(2) b ieee_rounding_exact libm_pow_sound_exact]
  have "\<forall>a b q. a = rnd ?p (RSSI_AT_1M ?cfg - (- 80)) \<and> b = rnd ?p (10 * PATH_LOSS_EXPONENT ?cfg)
            \<and> q = rnd ?p (a / b)
            \<and> \<bar>a\<bar> \<le> max_float ?p \<and> \<bar>b\<bar> \<le> max_float ?p \<and> \<bar>q\<bar> \<le> max_float ?p
          \<longrightarrow> libm_pow ?p 10 q = PosInf \<and> rssi_to_distance ?p ?cfg (- 80) = Inl OverflowError
              \<or> (\<exists>y. 0 \<le> y \<and> libm_pow ?p 10 q = Finite y
                    \<and> rssi_to_distance ?p ?cfg (- 80) = Inr (fl ?p (y * 100)))"
    by blast
  from this [rule_format, of 20 20 1] range pow prod
  have at_80: "rssi_to_distance ?p ?cfg (- 80) = Inr (Finite 1000)" by auto
  from a(2) b ieee_rounding_exact libm_pow_sound_exact c at_60 pow at_80
  show ?thesis by blast
qed

text \<open>
  C9, as stated, fails at the sentinel: with a positive exponent, -60 is less than 0, yet
  the distance estimated for -60 (100 cm) is not greater than the one estimated for 0,
  which is infinite. Away from the sentinel the decrease is not strict either: -6220 is
  less than -6200 and both estimates are infinite.
\<close>

theorem rssi_to_distance_sentinel_not_decreasing:
  "0 < PATH_LOSS_EXPONENT scenario_config \<and> (- 60 :: real) < 0
   \<and> rssi_to_distance exact_in_range scenario_config (- 60) = Inr (Finite 100)
   \<and> rssi_to_distance exact_in_range scenario_config 0 = Inr PosInf
   \<and> \<not> dist_less PosInf (Finite 100)
   \<and> (- 6220 :: real) < - 6200 \<and> (- 6200 :: real) \<noteq> 0
   \<and> rssi_to_distance exact_in_range scenario_config (- 6220) = Inr PosInf
   \<and> rssi_to_distance exact_in_range scenario_config (- 6200) = Inr PosInf
   \<and> \<not> dist_less PosInf PosInf"
  by (simp add: rssi_to_distance_def scenario_config_def fl_def exact_in_range_simps
        binary64_max_def)

text \<open>
  C9 (amended). For a positive path-loss exponent and signal strengths \<open>s1 < s2\<close> whose
  larger one is not the sentinel 0, on a platform with IEEE rounding and a sound
  \<^verbatim>\<open>pow\<close> that does not decrease in its exponent: whenever both estimates are returned
  and neither is not-a-number, the estimate for \<open>s1\<close> is at least the estimate for
  \<open>s2\<close>. (The smaller strength may be the sentinel: its infinite distance is at least
  every other one.)
\<close>

theorem rssi_to_distance_decreasing:
  assumes "ieee_rounding p" and "libm_pow_sound p" and "libm_pow_mono p"
    and "0 < PATH_LOSS_EXPONENT cfg" and "s1 < s2" and "s2 \<noteq> 0"
    and "rssi_to_distance p cfg s1 = Inr d1" and "rssi_to_distance p cfg s2 = Inr d2"
    and "d1 \<noteq> NaN" and "d2 \<noteq> NaN"
  shows "dist_le d2 d1"
proof (cases "s1 = 0")
  case True
  with assms(7) have "d1 = PosInf" by (simp add: rssi_to_distance_def)
  with assms(10) show ?thesis by (cases d2) simp_all
next
  case False
  from rssi_to_distance_Inr [OF False assms(7)] obtain q1 m1 where
    1: "float_truediv p (fl p (RSSI_AT_1M cfg - s1)) (fl p (10 * PATH_LOSS_EXPONENT cfg)) = Inr q1"
      "ten_pow p q1 = Inr m1" "d1 = float_mul p m1 (Finite 100)" .
  from rssi_to_distance_Inr [OF assms(6) assms(8)] obtain q2 m2 where
    2: "float_truediv p (fl p (RSSI_AT_1M cfg - s2)) (fl p (10 * PATH_LOSS_EXPONENT cfg)) = Inr q2"
      "ten_pow p q2 = Inr m2" "d2 = float_mul p m2 (Finite 100)" .
  from assms(9) 1(3) have m1: "m1 \<noteq> NaN" by (simp add: mul_100_NaN)
  from assms(10) 2(3) have m2: "m2 \<noteq> NaN" by (simp add: mul_100_NaN)
  from m1 1(2) have q1: "q1 \<noteq> NaN" by auto
  from m2 2(2) have q2: "q2 \<noteq> NaN" by auto
  from assms(5) have "RSSI_AT_1M cfg - s2 \<le> RSSI_AT_1M cfg - s1" by simp
  from fl_mono [OF assms(1) this]
  have a: "dist_le (fl p (RSSI_AT_1M cfg - s2)) (fl p (RSSI_AT_1M cfg - s1))" .
  from assms(4) have "0 \<le> 10 * PATH_LOSS_EXPONENT cfg" by simp
  from fl_nonneg [OF assms(1) this]
  have b: "fl p (10 * PATH_LOSS_EXPONENT cfg) = PosInf
           \<or> (\<exists>y. 0 \<le> y \<and> fl p (10 * PATH_LOSS_EXPONENT cfg) = Finite y)" .
  from truediv_mono [OF assms(1) a b 1(1) 2(1) q1 q2] have "dist_le q2 q1" .
  from ten_pow_mono [OF assms(2,3) this 2(2) 1(2)] have "dist_le m2 m1" .
  from mul_100_mono [OF assms(1) this] 1(3) 2(3) show ?thesis by simp
qed

theorem rssi_to_distance_decreasing_witness:
  "ieee_rounding exact_in_range \<and> libm_pow_sound exact_in_range
   \<and> libm_pow_mono exact_in_range
   \<and> 0 < PATH_LOSS_EXPONENT scenario_config \<and> (- 80 :: real) < - 60 \<and> (- 60 :: real) \<noteq> 0
   \<and> rssi_to_distance exact_in_range scenario_config (- 80) = Inr (Finite 1000)
   \<and> rssi_to_distance exact_in_range scenario_config (- 60) = Inr (Finite 100)
   \<and> dist_le (Finite 100) (Finite 1000)"
proof -
  have a: "0 < PATH_LOSS_EXPONENT scenario_config" by (simp add: scenario_config_def)
  have b: "(- 80 :: real) < - 60" by simp
  have c: "(- 60 :: real) \<noteq> 0" by simp
  have d1: "rssi_to_distance exact_in_range scenario_config (- 80) = Inr (Finite 1000)"
    by (simp add: rssi_to_distance_def scenario_config_def fl_def exact_in_range_simps
          binary64_max_def)
  have d2: "rssi_to_distance exact_in_range scenario_config (- 60) = Inr (Finite 100)"
    by (simp add: rssi_to_distance_def scenario_config_def fl_def exact_in_range_simps
          binary64_max_def)
  have n: "Finite 1000 \<noteq> NaN" "Finite 100 \<noteq> NaN" by simp_all
  from rssi_to_distance_decreasing
         [OF ieee_rounding_exact libm_pow_sound_exact libm_pow_mono_exact a b c d1 d2 n]
  have "dist_le (Finite 100) (Finite 1000)" .
  with ieee_rounding_exact libm_pow_sound_exact libm_pow_mono_exact a b c d1 d2
  show ?thesis by blast
qed

section \<open>The presence decision\<close>

text \<open>
  The thresholds of the theorems about away samples satisfy the invariant of the data
  model, \<open>NEARBY_DISTANCE_CM \<le> DISTANCE_THRESHOLD_CM\<close>: the nearby test comes first in
  the chain, so only then is a sample beyond the away threshold handled as away.
\<close>

text \<open>
  C1, as stated, with the screen already locked: thresholds 100 cm, 300 cm, 5 s, timer
  started at 0, a sample at 350 cm at clock reading 6. The away time has run out and the
  lock commands are run although \<open>screen_locked\<close> is already set.
\<close>

theorem lock_emitted_while_locked:
  "dist_less (Finite (DISTANCE_THRESHOLD_CM scenario_config)) (Finite 350)
   \<and> 6 - 0 > TIME_THRESHOLD_SECONDS scenario_config
   \<and> screen_locked \<lparr>distance_exceed_start_time = Some 0, screen_locked = True\<rparr>
   \<and> on_distance scenario_config (Finite 350) 6
        \<lparr>distance_exceed_start_time = Some 0, screen_locked = True\<rparr>
       = (\<lparr>distance_exceed_start_time = None, screen_locked = True\<rparr>, lock_commands)
   \<and> emits_lock lock_commands"
  by (simp add: on_distance_def lock_screen_def scenario_config_def emits_lock_simps)

text \<open>
  C1 (amended). For a sample beyond the away threshold that arrives while the timer is
  set to \<open>t\<close> and more than \<open>TIME_THRESHOLD_SECONDS\<close> after it, the lock commands are run
  whether the screen is recorded as unlocked or as already locked; afterwards the screen
  is recorded as locked and the timer is cleared.
\<close>

theorem away_timeout_locks_regardless:
  assumes "NEARBY_DISTANCE_CM cfg \<le> DISTANCE_THRESHOLD_CM cfg"
    and "dist_less (Finite (DISTANCE_THRESHOLD_CM cfg)) d"
    and "distance_exceed_start_time g = Some t"
    and "now - t > TIME_THRESHOLD_SECONDS cfg"
  shows "on_distance cfg d now g =
           (\<lparr>distance_exceed_start_time = None, screen_locked = True\<rparr>, lock_commands)
         \<and> emits_lock lock_commands"
  using assms by (cases d) (simp_all add: on_distance_def lock_screen_def emits_lock_simps)

theorem away_timeout_locks_regardless_witness:
  "NEARBY_DISTANCE_CM scenario_config \<le> DISTANCE_THRESHOLD_CM scenario_config
   \<and> dist_less (Finite (DISTANCE_THRESHOLD_CM scenario_config)) (Finite 320)
   \<and> 6 - 0 > TIME_THRESHOLD_SECONDS scenario_config
   \<and> on_distance scenario_config (Finite 320) 6
        \<lparr>distance_exceed_start_time = Some 0, screen_locked = False\<rparr>
       = (\<lparr>distance_exceed_start_time = None, screen_locked = True\<rparr>, lock_commands)"
proof -
  have a: "NEARBY_DISTANCE_CM scenario_config \<le> DISTANCE_THRESHOLD_CM scenario_config"
    by (simp add: scenario_config_def)
  have b: "dist_less (Finite (DISTANCE_THRESHOLD_CM scenario_config)) (Finite 320)"
    by (simp add: scenario_config_def)
  have c: "distance_exceed_start_time
             \<lparr>distance_exceed_start_time = Some 0, screen_locked = False\<rparr> = Some (0::real)"
    by simp
  have d: "6 - 0 > TIME_THRESHOLD_SECONDS scenario_config"
    by (simp add: scenario_config_def)
  from away_timeout_locks_regardless [OF a b c d] a b d show ?thesis by simp
qed

text \<open>
  C2. From globals whose timer is not set, one sample beyond the away threshold followed
  by one at or below it, at any clock readings, runs no lock command at either sample and
  ends with the timer not set.
\<close>

theorem single_away_sample_debounced:
  assumes "distance_exceed_start_time g = None"
    and "dist_less (Finite (DISTANCE_THRESHOLD_CM cfg)) d1"
    and "dist_le d2 (Finite (DISTANCE_THRESHOLD_CM cfg))"
  shows "\<exists>g' c1 c2. process cfg [(d1, t1), (d2, t2)] g = (g', [c1, c2])
           \<and> \<not> emits_lock c1 \<and> \<not> emits_lock c2 \<and> distance_exceed_start_time g' = None"
  using assms
  by (cases d1; cases d2) (auto simp add: on_distance_def unlock_screen_def emits_lock_simps)

theorem single_away_sample_debounced_witness:
  "distance_exceed_start_time initial_globals = None
   \<and> dist_less (Finite (DISTANCE_THRESHOLD_CM scenario_config)) (Finite 350)
   \<and> dist_le (Finite 150) (Finite (DISTANCE_THRESHOLD_CM scenario_config))
   \<and> (\<exists>g' c1 c2. process scenario_config [(Finite 350, 0), (Finite 150, 9)] initial_globals
                     = (g', [c1, c2])
           \<and> \<not> emits_lock c1 \<and> \<not> emits_lock c2 \<and> distance_exceed_start_time g' = None)"
proof -
  have a: "distance_exceed_start_time initial_globals = None"
    by (simp add: initial_globals_def)
  have b: "dist_less (Finite (DISTANCE_THRESHOLD_CM scenario_config)) (Finite 350)"
    by (simp add: scenario_config_def)
  have c: "dist_le (Finite 150) (Finite (DISTANCE_THRESHOLD_CM scenario_config))"
    by (simp add: scenario_config_def)
  from single_away_sample_debounced [OF a b c, of 0 9] a b c show ?thesis by blast
qed

text \<open>
  C3. In the dead zone, above the nearby threshold and at or below the away threshold
  (the away threshold itself included), a sample runs no command and changes nothing but
  the timer, which it clears; this holds for any globals.
\<close>

theorem dead_zone_clears_timer_only:
  assumes "dist_less (Finite (NEARBY_DISTANCE_CM cfg)) d"
    and "dist_le d (Finite (DISTANCE_THRESHOLD_CM cfg))"
  shows "on_distance cfg d now g = (g\<lparr>distance_exceed_start_time := None\<rparr>, [])"
  using assms by (cases d) (simp_all add: on_distance_def)

theorem dead_zone_clears_timer_only_witness:
  "dist_less (Finite (NEARBY_DISTANCE_CM scenario_config)) (Finite 300)
   \<and> dist_le (Finite 300) (Finite (DISTANCE_THRESHOLD_CM scenario_config))
   \<and> on_distance scenario_config (Finite 300) 9
        \<lparr>distance_exceed_start_time = Some 0, screen_locked = True\<rparr>
       = (\<lparr>distance_exceed_start_time = None, screen_locked = True\<rparr>, [])"
proof -
  have a: "dist_less (Finite (NEARBY_DISTANCE_CM scenario_config)) (Finite 300)"
    by (simp add: scenario_config_def)
  have b: "dist_le (Finite 300) (Finite (DISTANCE_THRESHOLD_CM scenario_config))"
    by (simp add: scenario_config_def)
  from dead_zone_clears_timer_only [OF a b, of 9
      "\<lparr>distance_exceed_start_time = Some 0, screen_locked = True\<rparr>"] a b
  show ?thesis by simp
qed

text \<open>
  C4. A sample at or below the nearby threshold (the threshold itself included) clears
  the timer and leaves the screen recorded as unlocked; the unlock commands are run
  exactly when the screen was recorded as locked, and otherwise nothing is run. The
  unlock commands are not the empty run and ask the screensaver to deactivate, so an
  unlock request is emitted if and only if the screen was recorded as locked. With the
  thresholds 100 cm, 300 cm, 5 s and the screen recorded as locked, two samples at 50 cm
  two seconds apart run the unlock commands at the first and nothing at the second.
\<close>

theorem nearby_unlocks_iff_locked:
  "(dist_le d (Finite (NEARBY_DISTANCE_CM cfg)) \<longrightarrow>
     on_distance cfg d now g =
       (\<lparr>distance_exceed_start_time = None, screen_locked = False\<rparr>,
        if screen_locked g then unlock_commands else [])
     \<and> emits_unlock (snd (on_distance cfg d now g)) = screen_locked g)
   \<and> unlock_commands \<noteq> []
   \<and> emits_unlock unlock_commands \<and> \<not> emits_unlock []
   \<and> process scenario_config [(Finite 50, t), (Finite 50, t + 2)]
        \<lparr>distance_exceed_start_time = a, screen_locked = True\<rparr>
       = (\<lparr>distance_exceed_start_time = None, screen_locked = False\<rparr>, [unlock_commands, []])"
  by (simp add: on_distance_def unlock_screen_def scenario_config_def unlock_commands_nonempty
        emits_unlock_simps)

theorem nearby_unlocks_iff_locked_witness:
  "dist_le (Finite 100) (Finite (NEARBY_DISTANCE_CM scenario_config))
   \<and> on_distance scenario_config (Finite 100) 7
        \<lparr>distance_exceed_start_time = Some 3, screen_locked = True\<rparr>
       = (\<lparr>distance_exceed_start_time = None, screen_locked = False\<rparr>, unlock_commands)
   \<and> emits_unlock (snd (on_distance scenario_config (Finite 100) 7
        \<lparr>distance_exceed_start_time = Some 3, screen_locked = True\<rparr>))
   \<and> on_distance scenario_config (Finite 100) 7
        \<lparr>distance_exceed_start_time = Some 3, screen_locked = False\<rparr>
       = (\<lparr>distance_exceed_start_time = None, screen_locked = False\<rparr>, [])
   \<and> \<not> emits_unlock (snd (on_distance scenario_config (Finite 100) 7
        \<lparr>distance_exceed_start_time = Some 3, screen_locked = False\<rparr>))"
proof -
  have a: "dist_le (Finite 100) (Finite (NEARBY_DISTANCE_CM scenario_config))"
    by (simp add: scenario_config_def)
  from a
    nearby_unlocks_iff_locked [of "Finite 100" scenario_config 7
      "\<lparr>distance_exceed_start_time = Some 3, screen_locked = True\<rparr>"]
    nearby_unlocks_iff_locked [of "Finite 100" scenario_config 7
      "\<lparr>distance_exceed_start_time = Some 3, screen_locked = False\<rparr>"]
  show ?thesis by simp
qed

text \<open>
  C5. Thresholds 100 cm, 300 cm, 5 s, starting unlocked with no timer: after 350 cm at
  t = 0 nothing has been run and the timer is set to 0; after 400 cm at t = 3 nothing has
  been run and the globals are the same; at 320 cm at t = 6 the lock commands are run,
  the screen is recorded as locked and the timer is cleared.
\<close>

theorem scenario_B:
  "process scenario_config [(Finite 350, 0)] initial_globals
     = (\<lparr>distance_exceed_start_time = Some 0, screen_locked = False\<rparr>, [[]])
   \<and> process scenario_config [(Finite 350, 0), (Finite 400, 3)] initial_globals
     = (\<lparr>distance_exceed_start_time = Some 0, screen_locked = False\<rparr>, [[], []])
   \<and> process scenario_config [(Finite 350, 0), (Finite 400, 3), (Finite 320, 6)] initial_globals
     = (\<lparr>distance_exceed_start_time = None, screen_locked = True\<rparr>, [[], [], lock_commands])
   \<and> emits_lock lock_commands"
  by (simp add: on_distance_def lock_screen_def scenario_config_def initial_globals_def
        emits_lock_simps)

text \<open>
  C6. A sample at or below the away threshold, or at or below the nearby threshold,
  leaves the timer cleared, from any globals. Hence over any run of samples that starts
  with the timer cleared: if the timer is set to \<open>t\<close> at the end, then \<open>t\<close> is the clock
  reading of a sample of the run and that sample and every later one were beyond the
  away threshold.
\<close>

theorem timer_only_while_away:
  "((dist_le d (Finite (DISTANCE_THRESHOLD_CM cfg)) \<or> dist_le d (Finite (NEARBY_DISTANCE_CM cfg)))
      \<longrightarrow> distance_exceed_start_time (fst (on_distance cfg d now g)) = None)
   \<and> (distance_exceed_start_time g0 = None
        \<and> distance_exceed_start_time (fst (process cfg samples g0)) = Some t
      \<longrightarrow> (\<exists>earlier run. samples = earlier @ run \<and> run \<noteq> [] \<and> snd (hd run) = t
            \<and> (\<forall>s \<in> set run. dist_less (Finite (DISTANCE_THRESHOLD_CM cfg)) (fst s))))"
proof (intro conjI impI)
  assume "dist_le d (Finite (DISTANCE_THRESHOLD_CM cfg))
            \<or> dist_le d (Finite (NEARBY_DISTANCE_CM cfg))"
  then show "distance_exceed_start_time (fst (on_distance cfg d now g)) = None"
    by (rule on_distance_clears)
next
  assume "distance_exceed_start_time g0 = None
        \<and> distance_exceed_start_time (fst (process cfg samples g0)) = Some t"
  then show "\<exists>earlier run. samples = earlier @ run \<and> run \<noteq> [] \<and> snd (hd run) = t
            \<and> (\<forall>s \<in> set run. dist_less (Finite (DISTANCE_THRESHOLD_CM cfg)) (fst s))"
    using process_timer_running [of cfg samples g0 t] by simp
qed

theorem timer_only_while_away_witness:
  "dist_le (Finite 150) (Finite (DISTANCE_THRESHOLD_CM scenario_config))
   \<and> distance_exceed_start_time
       (fst (on_distance scenario_config (Finite 150) 4
              \<lparr>distance_exceed_start_time = Some 0, screen_locked = False\<rparr>)) = None
   \<and> distance_exceed_start_time initial_globals = None
   \<and> distance_exceed_start_time
       (fst (process scenario_config [(Finite 50, 0), (Finite 350, 1), (Finite 400, 3)]
              initial_globals)) = Some 1
   \<and> (\<exists>earlier run. [(Finite 50, 0), (Finite 350, 1), (Finite 400, 3)] = earlier @ run
         \<and> run \<noteq> [] \<and> snd (hd run) = (1::real)
         \<and> (\<forall>s \<in> set run. dist_less (Finite (DISTANCE_THRESHOLD_CM scenario_config)) (fst s)))"
proof -
  have a: "dist_le (Finite 150) (Finite (DISTANCE_THRESHOLD_CM scenario_config))"
    by (simp add: scenario_config_def)
  have b: "distance_exceed_start_time initial_globals = None"
    by (simp add: initial_globals_def)
  have c: "distance_exceed_start_time
       (fst (process scenario_config [(Finite 50, 0), (Finite 350, 1), (Finite 400, 3)]
              initial_globals)) = Some 1"
    by (simp add: on_distance_def unlock_screen_def scenario_config_def initial_globals_def)
  from a b c
    timer_only_while_away [of "Finite 150" scenario_config 4
          "\<lparr>distance_exceed_start_time = Some 0, screen_locked = False\<rparr>"
          initial_globals "[(Finite 50, 0), (Finite 350, 1), (Finite 400, 3)]" 1]
  show ?thesis by blast
qed

text \<open>
  C10. A sample beyond the away threshold that arrives while the timer is set to \<open>t\<close>
  and at most \<open>TIME_THRESHOLD_SECONDS\<close> after it changes nothing: the timer stays at
  \<open>t\<close>, the lock flag is as it was, and no command is run.
\<close>

theorem away_within_window_unchanged:
  assumes "NEARBY_DISTANCE_CM cfg \<le> DISTANCE_THRESHOLD_CM cfg"
    and "dist_less (Finite (DISTANCE_THRESHOLD_CM cfg)) d"
    and "distance_exceed_start_time g = Some t"
    and "now - t \<le> TIME_THRESHOLD_SECONDS cfg"
  shows "on_distance cfg d now g = (g, [])"
  using assms by (cases d) (simp_all add: on_distance_def)

theorem away_within_window_unchanged_witness:
  "NEARBY_DISTANCE_CM scenario_config \<le> DISTANCE_THRESHOLD_CM scenario_config
   \<and> dist_less (Finite (DISTANCE_THRESHOLD_CM scenario_config)) (Finite 400)
   \<and> 5 - 0 \<le> TIME_THRESHOLD_SECONDS scenario_config
   \<and> on_distance scenario_config (Finite 400) 5
        \<lparr>distance_exceed_start_time = Some 0, screen_locked = False\<rparr>
       = (\<lparr>distance_exceed_start_time = Some 0, screen_locked = False\<rparr>, [])"
proof -
  have a: "NEARBY_DISTANCE_CM scenario_config \<le> DISTANCE_THRESHOLD_CM scenario_config"
    by (simp add: scenario_config_def)
  have b: "dist_less (Finite (DISTANCE_THRESHOLD_CM scenario_config)) (Finite 400)"
    by (simp add: scenario_config_def)
  have c: "distance_exceed_start_time
             \<lparr>distance_exceed_start_time = Some 0, screen_locked = False\<rparr> = Some (0::real)"
    by simp
  have d: "5 - 0 \<le> TIME_THRESHOLD_SECONDS scenario_config"
    by (simp add: scenario_config_def)
  from away_within_window_unchanged [OF a b c d] a b d show ?thesis by simp
qed

end
